theory Spec2Isabelle
  imports Complex_Main "HOL-Library.AList" "HOL-Library.Sublist"
begin

section \<open>Path codec (package config: PathToKeys, KeysToPath)\<close>

text \<open>
  Go strings are byte sequences; \<open>string\<close> is a list of 8-bit characters. The three
  library functions below are used by the source with the separator \<open>"/"\<close> only; the
  separator is ASCII, so working on bytes agrees with Go's code-point based \<open>Trim\<close>.
\<close>

definition Trim :: "string \<Rightarrow> string \<Rightarrow> string" where
  \<comment> \<open>\<open>strings.Trim(s, cutset)\<close>: all leading and trailing characters of the cutset removed\<close>
  "Trim s cutset =
     rev (dropWhile (\<lambda>c. c \<in> set cutset) (rev (dropWhile (\<lambda>c. c \<in> set cutset) s)))"

fun Split :: "string \<Rightarrow> char \<Rightarrow> string list" where
  \<comment> \<open>\<open>strings.Split(s, sep)\<close> for a one-character separator; the result is never
      empty, so the first branch of the case below is never taken\<close>
  "Split [] sep = [[]]"
| "Split (c # cs) sep =
     (if c = sep then [] # Split cs sep
      else (case Split cs sep of
              [] \<Rightarrow> [[c]]
            | w # ws \<Rightarrow> (c # w) # ws))"

fun Join :: "string list \<Rightarrow> string \<Rightarrow> string" where
  \<comment> \<open>\<open>strings.Join(elems, sep)\<close>\<close>
  "Join [] sep = []"
| "Join [k] sep = k"
| "Join (k # k' # ks) sep = k @ sep @ Join (k' # ks) sep"

definition PathToKeys :: "string \<Rightarrow> string list" where
  "PathToKeys path =
     (let path = Trim path ''/''
      in if path = [] then [] else Split path (CHR ''/''))"

definition KeysToPath :: "string list \<Rightarrow> string" where
  "KeysToPath keys = (if length keys = 0 then ''/'' else ''/'' @ Join keys ''/'')"

definition normal_path :: "string \<Rightarrow> bool" where
  \<comment> \<open>a path in normal form: the root \<open>/\<close>, or one leading separator followed by a
      text that neither starts nor ends with a separator\<close>
  "normal_path p =
     (case p of
        [] \<Rightarrow> False
      | c # q \<Rightarrow> c = CHR ''/'' \<and> (q = [] \<or> (hd q \<noteq> CHR ''/'' \<and> last q \<noteq> CHR ''/'')))"

definition valid_keys :: "string list \<Rightarrow> bool" where
  \<comment> \<open>the data model's paths: no key is empty, no key holds a separator\<close>
  "valid_keys ks = list_all (\<lambda>k. k \<noteq> [] \<and> CHR ''/'' \<notin> set k) ks"

section \<open>Nested dictionaries (package config: NestedSetDict)\<close>

text \<open>
  The values of a \<open>map[string]interface{}\<close>: the nil interface, scalars, lists, nested
  maps, and a nil map held in an interface value (\<open>map[string]interface{}(nil)\<close>).
  The last one is not equal to \<open>nil\<close>, the type assertion to a map succeeds on it, it
  reads as an empty map, and an assignment into it panics. The values are trees: no map
  is shared between two places, so the assignments that the Go code makes in place are
  the update of one path of the tree. A map is an association list read through
  \<open>map_of\<close> and written through \<open>AList.update\<close>, so a key occurs once. The root
  map itself may be nil (\<open>None\<close>); the code replaces a nil root by a fresh map.
\<close>

datatype jval =
    JNil
  | JBool bool
  | JNum int
  | JStr string
  | JList "jval list"
  | JMap "(string \<times> jval) list"
  | JNilMap

datatype panic = AssignmentToNilMap

type_synonym dict = "(string \<times> jval) list"

fun set_nested :: "dict \<Rightarrow> jval \<Rightarrow> string list \<Rightarrow> panic + dict" where
  \<comment> \<open>the loop over \<open>keys[:len(keys)-1]\<close> followed by the final assignment, on the map
      \<open>current\<close>. A missing or nil entry on the way is replaced by a fresh map, and so is
      an entry that is not a map. On a nil map held in an interface neither happens: it
      becomes \<open>current\<close>, and the next assignment, in the loop or after it, panics\<close>
  "set_nested current v [] = Inr current"
| "set_nested current v [k] = Inr (AList.update k v current)"
| "set_nested current v (k # k' # ks) =
     (case map_of current k of
        Some JNilMap \<Rightarrow> Inl AssignmentToNilMap
      | Some (JMap nested) \<Rightarrow>
          (case set_nested nested v (k' # ks) of
             Inl p \<Rightarrow> Inl p
           | Inr nested' \<Rightarrow> Inr (AList.update k (JMap nested') current))
      | _ \<Rightarrow>
          (case set_nested [] v (k' # ks) of
             Inl p \<Rightarrow> Inl p
           | Inr nested' \<Rightarrow> Inr (AList.update k (JMap nested') current)))"

definition NestedSetDict :: "dict option \<Rightarrow> jval \<Rightarrow> string list \<Rightarrow> panic + dict option" where
  "NestedSetDict dict v keys =
     (if length keys = 0 then Inr dict
      else (case set_nested (case dict of None \<Rightarrow> [] | Some d \<Rightarrow> d) v keys of
              Inl p \<Rightarrow> Inl p
            | Inr d \<Rightarrow> Inr (Some d)))"

fun lookup_keys :: "dict \<Rightarrow> string list \<Rightarrow> jval option" where
  \<comment> \<open>reading the value at a key sequence: \<open>d[k1][k2]...[kn]\<close>, absent when a key is
      missing or an entry on the way is not a map with entries\<close>
  "lookup_keys d [] = Some (JMap d)"
| "lookup_keys d [k] = map_of d k"
| "lookup_keys d (k # k' # ks) =
     (case map_of d k of Some (JMap m) \<Rightarrow> lookup_keys m (k' # ks) | _ \<Rightarrow> None)"

fun nil_map_on_path :: "dict \<Rightarrow> string list \<Rightarrow> bool" where
  \<comment> \<open>whether a key before the last one leads to a nil map held in an interface\<close>
  "nil_map_on_path d [] = False"
| "nil_map_on_path d [k] = False"
| "nil_map_on_path d (k # k' # ks) =
     (case map_of d k of
        Some JNilMap \<Rightarrow> True
      | Some (JMap m) \<Rightarrow> nil_map_on_path m (k' # ks)
      | _ \<Rightarrow> False)"

section \<open>Entity types (package types)\<close>

datatype Upstream = Upstream (Dial: string)

datatype RouteMatch = RouteMatch (Host: "string list") (Path: "string list")

text \<open>
  A route holds handlers and a sub-route handler holds routes. The field \<open>Handler\<close> of
  the Go struct \<open>Handler\<close> is the selector \<open>Kind\<close> here; a nil slice is the empty list.
  An empty \<open>ID\<close> is an absent identifier (the JSON tag is \<open>@id,omitempty\<close>).
\<close>

datatype Route =
  Route (ID: string) (Match: "RouteMatch list") (Handle: "Handler list") (Terminal: bool)
and Handler =
  Handler (Kind: string) (Upstreams: "Upstream list") (Routes: "Route list")

datatype HTTPServer =
  HTTPServer (Listen: "string list") (ServerRoutes: "Route list") (Protocols: "string list")

datatype PKIConfig = PKIConfig (InstallTrust: bool)

text \<open>The values the client hands to \<open>json.Marshal\<close> as a request body.\<close>

datatype payload =
    ConfigData dict
  | RouteData Route
  | RouteListData "Route list"
  | ServerData HTTPServer
  | PKIData PKIConfig

section \<open>The API client (package api)\<close>

text \<open>
  The calls into \<open>net/http\<close> are the boundary of the program. A transport is the HTTP
  library together with the remote: \<open>request_ok\<close> says whether a request can be built
  for a URL (\<open>http.NewRequest\<close>, also inside \<open>HTTPClient.Get\<close>, fails on a URL that
  does not parse, and then nothing is sent); a GET is answered from the remote state
  without changing it; a request with a body and a DELETE are answered with a response
  and the next remote state. \<open>NoResponse\<close> is an error of sending; the body of a
  response is \<open>None\<close> when it is not JSON. A world is the remote state with the log of
  the requests that were built and handed over for sending. Every request body of the
  source is a value that \<open>json.Marshal\<close> accepts, so the marshalling error of
  \<open>sendRequest\<close> has no branch here.
\<close>

datatype request = GET string | SEND string string payload | DELETE string

datatype response = NoResponse | Response nat "payload option"

datatype error =
    RequestError
  | TransportError
  | StatusError nat
  | DecodeError
  | DeleteExistingFailed error
  | UnsupportedPortType

record 's transport =
  request_ok :: "string \<Rightarrow> bool"
  http_get :: "'s \<Rightarrow> string \<Rightarrow> response"
  http_send :: "'s \<Rightarrow> string \<Rightarrow> string \<Rightarrow> payload \<Rightarrow> response \<times> 's"
  http_delete :: "'s \<Rightarrow> string \<Rightarrow> response \<times> 's"

record 's world =
  remote :: 's
  sent :: "request list"

definition BaseURL :: string where
  "BaseURL = ''http://localhost:2019''"

definition HasPrefix :: "string \<Rightarrow> string \<Rightarrow> bool" where
  "HasPrefix s pre = prefix pre s"

definition HasSuffix :: "string \<Rightarrow> string \<Rightarrow> bool" where
  "HasSuffix s suf = suffix suf s"

definition ToUpper :: "string \<Rightarrow> string" where
  \<comment> \<open>\<open>strings.ToUpper\<close> on ASCII letters (the source passes \<open>"POST"\<close> only)\<close>
  "ToUpper s =
     map (\<lambda>c. case map_of (zip ''abcdefghijklmnopqrstuvwxyz'' ''ABCDEFGHIJKLMNOPQRSTUVWXYZ'') c of
                 Some u \<Rightarrow> u | None \<Rightarrow> c) s"

definition slashed :: "string \<Rightarrow> string" where
  \<comment> \<open>the two checks shared by \<open>GetIDURL\<close> and \<open>GetConfigURL\<close>: the path starts and ends
      with a separator\<close>
  "slashed path =
     (let path = (if \<not> HasPrefix path ''/'' then ''/'' @ path else path);
          path = (if \<not> HasSuffix path ''/'' then path @ ''/'' else path)
      in path)"

definition GetIDURL :: "string \<Rightarrow> string" where
  "GetIDURL path = BaseURL @ ''/id'' @ slashed path"

definition GetConfigURL :: "string \<Rightarrow> string" where
  "GetConfigURL path = BaseURL @ ''/config'' @ slashed path"

definition decode_object :: "payload option \<Rightarrow> payload option" where
  \<comment> \<open>\<open>json.NewDecoder(resp.Body).Decode(&result)\<close> with \<open>result\<close> a
      \<open>map[string]interface{}\<close>: a JSON object decodes, an array or a body that is not
      JSON is an error\<close>
  "decode_object body =
     (case body of
        None \<Rightarrow> None
      | Some (RouteListData rs) \<Rightarrow> None
      | Some p \<Rightarrow> Some p)"

definition http_read :: "'s transport \<Rightarrow> string \<Rightarrow> 's world \<Rightarrow> (error + payload) \<times> 's world" where
  \<comment> \<open>the common body of \<open>GetByID\<close> and \<open>GetConfig\<close> after the URL is built\<close>
  "http_read T url w =
     (if \<not> request_ok T url then (Inl TransportError, w)
      else
        (let w' = w\<lparr>sent := sent w @ [GET url]\<rparr>
         in case http_get T (remote w) url of
              NoResponse \<Rightarrow> (Inl TransportError, w')
            | Response status body \<Rightarrow>
                if status \<noteq> 200 then (Inl (StatusError status), w')
                else (case decode_object body of
                        None \<Rightarrow> (Inl DecodeError, w')
                      | Some result \<Rightarrow> (Inr result, w'))))"

definition GetByID :: "'s transport \<Rightarrow> string \<Rightarrow> 's world \<Rightarrow> (error + payload) \<times> 's world" where
  "GetByID T path w = http_read T (GetIDURL path) w"

definition GetConfig :: "'s transport \<Rightarrow> string \<Rightarrow> 's world \<Rightarrow> (error + payload) \<times> 's world" where
  "GetConfig T path w = http_read T (GetConfigURL path) w"

definition HasID :: "'s transport \<Rightarrow> string \<Rightarrow> 's world \<Rightarrow> bool \<times> 's world" where
  "HasID T ident w = (case GetByID T ident w of (r, w') \<Rightarrow> (\<not> isl r, w'))"

definition HasPath :: "'s transport \<Rightarrow> string \<Rightarrow> 's world \<Rightarrow> bool \<times> 's world" where
  "HasPath T path w = (case GetConfig T path w of (r, w') \<Rightarrow> (\<not> isl r, w'))"

definition sendRequest ::
  "'s transport \<Rightarrow> string \<Rightarrow> string \<Rightarrow> payload \<Rightarrow> 's world \<Rightarrow> error option \<times> 's world" where
  "sendRequest T method url data w =
     (if \<not> request_ok T url then (Some RequestError, w)
      else
        (case http_send T (remote w) (ToUpper method) url data of
           (resp, s') \<Rightarrow>
             (let w' = \<lparr>remote = s', sent = sent w @ [SEND (ToUpper method) url data]\<rparr>
              in case resp of
                   NoResponse \<Rightarrow> (Some TransportError, w')
                 | Response status body \<Rightarrow>
                     if status < 200 \<or> status \<ge> 300 then (Some (StatusError status), w')
                     else (None, w'))))"

definition PutByID ::
  "'s transport \<Rightarrow> payload \<Rightarrow> string \<Rightarrow> string \<Rightarrow> 's world \<Rightarrow> error option \<times> 's world" where
  "PutByID T data path method w = sendRequest T method (GetIDURL path) data w"

definition PutConfig ::
  "'s transport \<Rightarrow> payload \<Rightarrow> string \<Rightarrow> string \<Rightarrow> 's world \<Rightarrow> error option \<times> 's world" where
  "PutConfig T data path method w = sendRequest T method (GetConfigURL path) data w"

definition DeleteByID :: "'s transport \<Rightarrow> string \<Rightarrow> 's world \<Rightarrow> error option \<times> 's world" where
  "DeleteByID T ident w =
     (let url = GetIDURL ident
      in if \<not> request_ok T url then (Some RequestError, w)
         else
           (case http_delete T (remote w) url of
              (resp, s') \<Rightarrow>
                (let w' = \<lparr>remote = s', sent = sent w @ [DELETE url]\<rparr>
                 in case resp of
                      NoResponse \<Rightarrow> (Some TransportError, w')
                    | Response status body \<Rightarrow>
                        if status \<noteq> 200 \<and> status \<noteq> 204 then (Some (StatusError status), w')
                        else (None, w'))))"

section \<open>Path initialisation (package config: InitPath)\<close>

fun InitPath_loop ::
  "'s transport \<Rightarrow> int \<Rightarrow> nat \<Rightarrow> string list \<Rightarrow> string list \<Rightarrow> 's world
     \<Rightarrow> error option \<times> 's world" where
  \<comment> \<open>the \<open>for i, key := range keys\<close> loop: \<open>i\<close> is the index, \<open>currentKeys\<close> the keys
      appended so far, the last list the keys still to visit\<close>
  "InitPath_loop T skip i currentKeys [] w = (None, w)"
| "InitPath_loop T skip i currentKeys (key # rest) w =
     (let currentKeys = currentKeys @ [key]
      in if int i < skip then InitPath_loop T skip (Suc i) currentKeys rest w
         else (case PutConfig T (ConfigData []) (KeysToPath currentKeys) ''POST'' w of
                 (Some err, w') \<Rightarrow> (Some err, w')
               | (None, w') \<Rightarrow> InitPath_loop T skip (Suc i) currentKeys rest w'))"

definition InitPath :: "'s transport \<Rightarrow> string \<Rightarrow> int \<Rightarrow> 's world \<Rightarrow> error option \<times> 's world" where
  "InitPath T path skip w = InitPath_loop T skip 0 [] (PathToKeys path) w"

definition level_writes :: "string list \<Rightarrow> int \<Rightarrow> request list" where
  \<comment> \<open>the writes of a complete run, for comparison: one empty container per level \<open>i\<close>
      from \<open>skip\<close> on, shallowest first, at the path of the first \<open>i + 1\<close> keys\<close>
  "level_writes keys skip =
     map (\<lambda>i. SEND ''POST'' (GetConfigURL (KeysToPath (take (Suc i) keys))) (ConfigData []))
       [nat skip ..< length keys]"

definition writes_from :: "string list \<Rightarrow> int \<Rightarrow> nat \<Rightarrow> request list" where
  \<comment> \<open>the writes still to come when the loop is at index \<open>i\<close>\<close>
  "writes_from keys skip i =
     map (\<lambda>i. SEND ''POST'' (GetConfigURL (KeysToPath (take (Suc i) keys))) (ConfigData []))
       [max (nat skip) i ..< length keys]"

fun is_write :: "request \<Rightarrow> bool" where
  "is_write (GET url) = False"
| "is_write (SEND method url data) = True"
| "is_write (DELETE url) = True"

section \<open>Route management (package routes)\<close>

definition ServersPath :: string where
  "ServersPath = ''/apps/http/servers''"

definition RoutesPath :: string where
  "RoutesPath = ServersPath @ ''/srv0/routes''"

definition InitRoutes :: "'s transport \<Rightarrow> string \<Rightarrow> int \<Rightarrow> 's world \<Rightarrow> error option \<times> 's world" where
  "InitRoutes T serverName skip w =
     (case HasPath T ServersPath w of
        (True, w1) \<Rightarrow> (None, w1)
      | (False, w1) \<Rightarrow>
          (case InitPath T ServersPath skip w1 of
             (Some err, w2) \<Rightarrow> (Some err, w2)
           | (None, w2) \<Rightarrow>
               PutConfig T (ServerData (HTTPServer ['':80'', '':443''] [] [''h1'', ''h2'']))
                 (ServersPath @ ''/'' @ serverName) ''POST'' w2))"

definition AddRoute :: "'s transport \<Rightarrow> Route \<Rightarrow> 's world \<Rightarrow> error option \<times> 's world" where
  "AddRoute T route w = PutConfig T (RouteData route) RoutesPath ''POST'' w"


definition AddWildcardRoute :: "'s transport \<Rightarrow> string \<Rightarrow> 's world \<Rightarrow> error option \<times> 's world" where
  "AddWildcardRoute T domain w =
     AddRoute T
       (Route (''wildcard-'' @ domain)
          [RouteMatch [''*.'' @ domain] []]
          [Handler ''subroute'' [] []]
          True)
       w"

definition AddSubReverseProxy ::
  "'s transport \<Rightarrow> string \<Rightarrow> string \<Rightarrow> string list \<Rightarrow> string \<Rightarrow> 's world
     \<Rightarrow> error option \<times> 's world" where
  "AddSubReverseProxy T domain subdomain ports host w =
     (let wildcardID = ''wildcard-'' @ domain;
          routeID = subdomain @ ''.'' @ domain;
          host = (if host = [] then ''localhost'' else host);
          upstreams = map (\<lambda>port. Upstream (host @ '':'' @ port)) ports;
          newRoute = Route routeID
                       [RouteMatch [routeID] []]
                       [Handler ''reverse_proxy'' upstreams []]
                       False;
          subroutePath = wildcardID @ ''/handle/0/routes/...''
      in PutByID T (RouteListData [newRoute]) subroutePath ''POST'' w)"

subsection \<open>Port arguments\<close>

text \<open>
  The \<open>ports\<close> argument is an \<open>interface{}\<close>. A dynamic value is a string, an int, a
  float64 or a value of any other type; the argument is one dynamic value, a
  \<open>[]string\<close>, a \<open>[]int\<close> or a \<open>[]interface{}\<close>. A float64 is a real number here (NaN and
  the infinities are left out), and \<open>int(p)\<close> drops the fraction.
\<close>

datatype port_value = PortString string | PortInt int | PortFloat real | PortOther

datatype ports_arg =
    Single port_value
  | StringList "string list"
  | IntList "int list"
  | AnyList "port_value list"

fun digits :: "nat \<Rightarrow> string" where
  "digits n =
     (if n < 10 then [''0123456789'' ! n]
      else digits (n div 10) @ [''0123456789'' ! (n mod 10)])"

declare digits.simps [simp del]

definition Itoa :: "int \<Rightarrow> string" where
  \<comment> \<open>\<open>strconv.Itoa\<close>\<close>
  "Itoa i = (if i < 0 then CHR ''-'' # digits (nat (- i)) else digits (nat i))"

definition float_to_int :: "real \<Rightarrow> int" where
  \<comment> \<open>the conversion \<open>int(p)\<close> of a float64 in the range of \<open>int\<close>: towards zero\<close>
  "float_to_int p = (if 0 \<le> p then \<lfloor>p\<rfloor> else \<lceil>p\<rceil>)"

definition port_list :: "ports_arg \<Rightarrow> error + string list" where
  \<comment> \<open>the type switch of \<open>AddSubReverseProxyWithPorts\<close>; the inner switch has no default
      case, so an element of another type adds nothing to \<open>portList\<close>\<close>
  "port_list ports =
     (case ports of
        Single (PortString v) \<Rightarrow> Inr [v]
      | Single (PortInt v) \<Rightarrow> Inr [Itoa v]
      | StringList v \<Rightarrow> Inr v
      | IntList v \<Rightarrow> Inr (map Itoa v)
      | AnyList v \<Rightarrow>
          Inr (concat (map (\<lambda>port. case port of
                                      PortString p \<Rightarrow> [p]
                                    | PortInt p \<Rightarrow> [Itoa p]
                                    | PortFloat p \<Rightarrow> [Itoa (float_to_int p)]
                                    | PortOther \<Rightarrow> []) v))
      | Single _ \<Rightarrow> Inl UnsupportedPortType)"

definition AddSubReverseProxyWithPorts ::
  "'s transport \<Rightarrow> string \<Rightarrow> string \<Rightarrow> ports_arg \<Rightarrow> string \<Rightarrow> 's world
     \<Rightarrow> error option \<times> 's world" where
  "AddSubReverseProxyWithPorts T domain subdomain ports host w =
     (case port_list ports of
        Inl err \<Rightarrow> (Some err, w)
      | Inr portList \<Rightarrow> AddSubReverseProxy T domain subdomain portList host w)"

section \<open>PKI trust (package tls: SetupPKITrust)\<close>

definition SetupPKITrust :: "'s transport \<Rightarrow> bool option \<Rightarrow> 's world \<Rightarrow> error option \<times> 's world" where
  "SetupPKITrust T installTrust w =
     (case installTrust of
        None \<Rightarrow> (None, w)
      | Some flag \<Rightarrow>
          (let pkiPath = ''/apps/pki/certificate_authorities/local''
           in case InitPath T pkiPath 1 w of
                (Some err, w') \<Rightarrow> (Some err, w')
              | (None, w') \<Rightarrow> PutConfig T (PKIData (PKIConfig flag)) pkiPath ''POST'' w'))"

section \<open>A reference transport\<close>

subsection \<open>The library side\<close>

text \<open>
  What \<open>net/http\<close> does with the URLs that the client builds (the base URL followed by
  a path). \<open>url.Parse\<close> cuts the fragment off at the first \<open>#\<close> and the query at the
  first \<open>?\<close>; it refuses a control byte before the fragment, and a \<open>%\<close> that is not
  followed by two hexadecimal digits in the path or in the fragment. A request that is
  built is sent without its fragment: the remote is asked for the URL up to the first
  \<open>#\<close>.
\<close>

definition ishex :: "char \<Rightarrow> bool" where
  "ishex c = (c \<in> set ''0123456789abcdefABCDEF'')"

definition is_ctl :: "char \<Rightarrow> bool" where
  "is_ctl c = ((of_char c :: nat) < 32 \<or> (of_char c :: nat) = 127)"

fun valid_escapes :: "string \<Rightarrow> bool" where
  "valid_escapes [] = True"
| "valid_escapes [c] = (c \<noteq> CHR ''%'')"
| "valid_escapes [c, a] = (c \<noteq> CHR ''%'' \<and> a \<noteq> CHR ''%'')"
| "valid_escapes (c # a # b # rest) =
     (if c = CHR ''%'' then ishex a \<and> ishex b \<and> valid_escapes rest
      else valid_escapes (a # b # rest))"

definition url_parses :: "string \<Rightarrow> bool" where
  "url_parses url =
     (let u = takeWhile (\<lambda>c. c \<noteq> CHR ''#'') url;
          frag = tl (dropWhile (\<lambda>c. c \<noteq> CHR ''#'') url);
          path = takeWhile (\<lambda>c. c \<noteq> CHR ''?'') u
      in \<not> list_ex is_ctl u \<and> valid_escapes path \<and> valid_escapes frag)"

definition ref_target :: "string \<Rightarrow> string" where
  \<comment> \<open>the part of the URL that the remote is asked for: all but the fragment\<close>
  "ref_target url = takeWhile (\<lambda>c. c \<noteq> CHR ''#'') url"

definition reaches_store :: "string \<Rightarrow> bool" where
  \<comment> \<open>a request for the URL is built, and the remote is asked for the whole URL\<close>
  "reaches_store url = (url_parses url \<and> ref_target url = url)"

subsection \<open>The remote store\<close>

text \<open>
  Modelled from the spec: the remote store behind the transport is not part of the
  source; section 6 of the specification gives its interface (read, write with insert
  mode, read, write and delete by identifier, existence as a successful read) and its
  layout (path-addressed entries, and an ordered route list for the server). The store
  below follows it: a value written to a configuration path is kept under its URL; a
  route written to the route-list path is appended to the list; a route anywhere in
  the route tree is addressed by the URL of its non-empty identifier; a list of routes
  written to \<open>handle/0/routes/...\<close> under an identifier is appended to the sub-routes
  of the first handler of the route so named; a delete by identifier removes the
  routes so named, which is one route in a state that keeps the data model's invariant
  of unique identifiers. The store accepts a duplicate identifier, as the
  specification's invariant on routes presupposes.
\<close>

record store =
  entries :: "(string \<times> payload) list"
  route_list :: "Route list"

primrec route_tree :: "Route \<Rightarrow> Route list" and handler_tree :: "Handler \<Rightarrow> Route list" where
  "route_tree (Route i m h t) = Route i m h t # concat (map handler_tree h)"
| "handler_tree (Handler k u rs) = concat (map route_tree rs)"

definition all_routes :: "store \<Rightarrow> Route list" where
  "all_routes s = concat (map route_tree (route_list s))"

definition addressed_by :: "string \<Rightarrow> Route \<Rightarrow> bool" where
  "addressed_by url r = (ID r \<noteq> [] \<and> GetIDURL (ID r) = url)"

definition append_target :: "string \<Rightarrow> string \<Rightarrow> bool" where
  "append_target url i = (i \<noteq> [] \<and> GetIDURL (i @ ''/handle/0/routes/...'') = url)"

primrec purge_route :: "string \<Rightarrow> Route \<Rightarrow> Route" and purge_handler :: "string \<Rightarrow> Handler \<Rightarrow> Handler" where
  "purge_route url (Route i m h t) = Route i m (map (purge_handler url) h) t"
| "purge_handler url (Handler k u rs) =
     Handler k u (filter (\<lambda>r. \<not> addressed_by url r) (map (purge_route url) rs))"

definition purge :: "string \<Rightarrow> Route list \<Rightarrow> Route list" where
  "purge url rs = filter (\<lambda>r. \<not> addressed_by url r) (map (purge_route url) rs)"

fun append_first :: "Route list \<Rightarrow> Handler list \<Rightarrow> Handler list" where
  "append_first new [] = []"
| "append_first new (Handler k u rs # hs) = Handler k u (rs @ new) # hs"

primrec graft_route :: "string \<Rightarrow> Route list \<Rightarrow> Route \<Rightarrow> Route"
  and graft_handler :: "string \<Rightarrow> Route list \<Rightarrow> Handler \<Rightarrow> Handler" where
  "graft_route url new (Route i m h t) =
     Route i m
       (if append_target url i then append_first new (map (graft_handler url new) h)
        else map (graft_handler url new) h)
       t"
| "graft_handler url new (Handler k u rs) = Handler k u (map (graft_route url new) rs)"

definition ref_get :: "store \<Rightarrow> string \<Rightarrow> response" where
  "ref_get s url =
     (if url = GetConfigURL RoutesPath then Response 200 (Some (RouteListData (route_list s)))
      else if prefix (BaseURL @ ''/config/'') url then
        (case map_of (entries s) url of
           Some p \<Rightarrow> Response 200 (Some p)
         | None \<Rightarrow> Response 404 None)
      else
        (case find (addressed_by url) (all_routes s) of
           Some r \<Rightarrow> Response 200 (Some (RouteData r))
         | None \<Rightarrow> Response 404 None))"

definition ref_send :: "store \<Rightarrow> string \<Rightarrow> string \<Rightarrow> payload \<Rightarrow> response \<times> store" where
  "ref_send s method url data =
     (if method \<noteq> ''POST'' then (Response 405 None, s)
      else if url = GetConfigURL RoutesPath then
        (case data of
           RouteData r \<Rightarrow> (Response 200 None, s\<lparr>route_list := route_list s @ [r]\<rparr>)
         | _ \<Rightarrow> (Response 400 None, s))
      else if prefix (BaseURL @ ''/config/'') url then
        (Response 200 None, s\<lparr>entries := AList.update url data (entries s)\<rparr>)
      else
        (case data of
           RouteListData new \<Rightarrow>
             if list_ex (\<lambda>r. append_target url (ID r) \<and> Handle r \<noteq> []) (all_routes s)
             then (Response 200 None, s\<lparr>route_list := map (graft_route url new) (route_list s)\<rparr>)
             else (Response 404 None, s)
         | _ \<Rightarrow> (Response 404 None, s)))"

definition ref_delete :: "store \<Rightarrow> string \<Rightarrow> response \<times> store" where
  "ref_delete s url =
     (if list_ex (addressed_by url) (all_routes s)
      then (Response 200 None, s\<lparr>route_list := purge url (route_list s)\<rparr>)
      else (Response 404 None, s))"

definition reference :: "store transport" where
  "reference =
     \<lparr>request_ok = url_parses,
      http_get = (\<lambda>s url. ref_get s (ref_target url)),
      http_send = (\<lambda>s method url data. ref_send s method (ref_target url) data),
      http_delete = (\<lambda>s url. ref_delete s (ref_target url))\<rparr>"

definition fresh :: "store world" where
  \<comment> \<open>an empty store, nothing sent yet\<close>
  "fresh = \<lparr>remote = \<lparr>entries = [], route_list = []\<rparr>, sent = []\<rparr>"

section \<open>Properties of the path codec\<close>

lemma Split_not_Nil: "Split s sep \<noteq> []"
  by (cases s) (simp_all split: list.split)

lemma Join_Cons: "ks \<noteq> [] \<Longrightarrow> Join (k # ks) sep = k @ sep @ Join ks sep"
  by (cases ks) simp_all

lemma Join_Split: "Join (Split s c) [c] = s"
proof (induction s)
  case Nil
  show ?case by simp
next
  case (Cons a s)
  obtain w ws where sp: "Split s c = w # ws"
    using Split_not_Nil [of s c] by (cases "Split s c") auto
  show ?case
  proof (cases "a = c")
    case True
    then show ?thesis using Cons by (simp add: Join_Cons Split_not_Nil)
  next
    case False
    then show ?thesis using Cons sp by (cases ws) simp_all
  qed
qed

lemma Trim_inner:
  assumes "q \<noteq> []" "hd q \<noteq> CHR ''/''" "last q \<noteq> CHR ''/''"
  shows "Trim (CHR ''/'' # q) ''/'' = q"
proof -
  have a: "dropWhile (\<lambda>c. c \<in> set ''/'') (CHR ''/'' # q) = q"
    using assms by (cases q) simp_all
  have "rev q \<noteq> []" "hd (rev q) \<noteq> CHR ''/''"
    using assms by (simp_all add: hd_rev)
  then have b: "dropWhile (\<lambda>c. c \<in> set ''/'') (rev q) = rev q"
    by (cases "rev q") simp_all
  show ?thesis unfolding Trim_def a b by simp
qed

lemma Trim_only_separators:
  assumes "set p \<subseteq> {CHR ''/''}"
  shows "Trim p ''/'' = []"
proof -
  have a: "dropWhile (\<lambda>c. c \<in> set ''/'') p = []"
    using assms by (induction p) auto
  show ?thesis unfolding Trim_def a by simp
qed

lemma normal_path_roundtrip:
  assumes "normal_path p"
  shows "KeysToPath (PathToKeys p) = p"
proof (cases p)
  case Nil
  with assms show ?thesis by (simp add: normal_path_def)
next
  case (Cons c q)
  with assms have c: "c = CHR ''/''" by (simp add: normal_path_def)
  show ?thesis
  proof (cases "q = []")
    case True
    with Cons c show ?thesis
      by (simp add: PathToKeys_def KeysToPath_def Trim_def)
  next
    case False
    with assms Cons have "hd q \<noteq> CHR ''/''" "last q \<noteq> CHR ''/''"
      by (simp_all add: normal_path_def)
    with False have "Trim (CHR ''/'' # q) ''/'' = q" by (rule Trim_inner)
    with False Cons c show ?thesis
      using Join_Split [of q "CHR ''/''"]
      by (simp add: PathToKeys_def KeysToPath_def Split_not_Nil)
  qed
qed

lemma Join_not_Nil: "ks \<noteq> [] \<Longrightarrow> last ks \<noteq> [] \<Longrightarrow> Join ks sep \<noteq> []"
  by (induction ks sep rule: Join.induct) auto

lemma hd_Join: "ks \<noteq> [] \<Longrightarrow> hd ks \<noteq> [] \<Longrightarrow> hd (Join ks sep) = hd (hd ks)"
  by (induction ks sep rule: Join.induct) auto

lemma last_Join: "ks \<noteq> [] \<Longrightarrow> last ks \<noteq> [] \<Longrightarrow> last (Join ks sep) = last (last ks)"
proof (induction ks sep rule: Join.induct)
  case (1 sep) then show ?case by simp
next
  case (2 k sep) then show ?case by simp
next
  case (3 k k' ks sep)
  then have "Join (k' # ks) sep \<noteq> []" using Join_not_Nil [of "k' # ks" sep] by simp
  with 3 show ?case by simp
qed

lemma valid_keys_normal_path:
  assumes "valid_keys ks"
  shows "normal_path (KeysToPath ks)"
proof (cases "ks = []")
  case True
  then show ?thesis by (simp add: KeysToPath_def normal_path_def)
next
  case False
  from assms have all: "\<forall>k\<in>set ks. k \<noteq> [] \<and> CHR ''/'' \<notin> set k"
    by (simp add: valid_keys_def list_all_iff)
  from False all have h: "hd ks \<noteq> []" "CHR ''/'' \<notin> set (hd ks)" by auto
  from False all have l: "last ks \<noteq> []" "CHR ''/'' \<notin> set (last ks)" by auto
  have "hd (hd ks) \<in> set (hd ks)" "last (last ks) \<in> set (last ks)" using h l by auto
  with h l have "hd (hd ks) \<noteq> CHR ''/''" "last (last ks) \<noteq> CHR ''/''" by metis+
  with False h l show ?thesis
    by (simp add: KeysToPath_def normal_path_def hd_Join last_Join Join_not_Nil)
qed

lemma PathToKeys_only_separators: "set q \<subseteq> {CHR ''/''} \<Longrightarrow> PathToKeys q = []"
  by (simp add: PathToKeys_def Trim_only_separators)

text \<open>
  Claim C7. A path in normal form is returned unchanged by \<open>PathToKeys\<close> followed by
  \<open>KeysToPath\<close>, and the serialisation of every key sequence of the data model is in
  normal form. \<open>PathToKeys\<close> gives no keys for an input that is empty or made of
  separators only; \<open>KeysToPath\<close> gives \<open>/\<close> for no keys and otherwise \<open>/\<close>
  followed by the keys joined by \<open>/\<close>.
\<close>

theorem path_codec_roundtrip:
  "(normal_path p \<longrightarrow> KeysToPath (PathToKeys p) = p)
   \<and> (valid_keys ks \<longrightarrow> normal_path (KeysToPath ks))
   \<and> (set q \<subseteq> {CHR ''/''} \<longrightarrow> PathToKeys q = [])
   \<and> KeysToPath [] = ''/''
   \<and> (ks \<noteq> [] \<longrightarrow> KeysToPath ks = ''/'' @ Join ks ''/'')"
proof (intro conjI impI)
  show "KeysToPath [] = ''/''" by (simp add: KeysToPath_def)
  show "KeysToPath ks = ''/'' @ Join ks ''/''" if "ks \<noteq> []"
    using that by (simp add: KeysToPath_def)
qed (rule normal_path_roundtrip valid_keys_normal_path PathToKeys_only_separators, assumption)+

theorem path_codec_roundtrip_witness:
  "normal_path ''/apps/http/servers''
   \<and> KeysToPath (PathToKeys ''/apps/http/servers'') = ''/apps/http/servers''
   \<and> valid_keys [''apps'', ''http'']
   \<and> normal_path (KeysToPath [''apps'', ''http''])
   \<and> set ''///'' \<subseteq> {CHR ''/''} \<and> PathToKeys ''///'' = []
   \<and> [''apps'', ''http''] \<noteq> []
   \<and> KeysToPath [''apps'', ''http''] = ''/apps/http''"
  using path_codec_roundtrip [of "''/apps/http/servers''" "[''apps'', ''http'']" "''///''"]
  by (simp add: normal_path_def valid_keys_def)

section \<open>Properties of NestedSetDict\<close>

lemma map_of_update_same: "map_of (AList.update k v al) k = Some v"
  by (simp add: update_conv')

text \<open>
  The walk panics exactly when a key before the last one leads to a nil map held in an
  interface; on every other root, reading the key sequence in the result gives the
  value, and no keys give the root back.
\<close>

lemma set_nested_panics:
  "nil_map_on_path d keys \<Longrightarrow> set_nested d v keys = Inl AssignmentToNilMap"
  by (induction d v keys rule: set_nested.induct)
     (auto split: option.splits jval.splits)

lemma nil_map_on_path_empty: "\<not> nil_map_on_path [] keys"
  by (induction "[] :: dict" keys rule: nil_map_on_path.induct) simp_all

lemma set_nested_lookup:
  "keys \<noteq> [] \<Longrightarrow> \<not> nil_map_on_path d keys \<Longrightarrow>
     \<exists>d'. set_nested d v keys = Inr d' \<and> lookup_keys d' keys = Some v"
proof (induction keys arbitrary: d)
  case Nil
  then show ?case by simp
next
  case (Cons k rest)
  show ?case
  proof (cases rest)
    case Nil
    then show ?thesis by (simp add: map_of_update_same)
  next
    case (Cons k' ks)
    define nested where "nested = (case map_of d k of Some (JMap m) \<Rightarrow> m | _ \<Rightarrow> [])"
    have not_nil: "map_of d k \<noteq> Some JNilMap"
      using Cons.prems(2) Cons by (auto split: option.splits jval.splits)
    have "\<not> nil_map_on_path nested rest"
      using Cons.prems(2) Cons nil_map_on_path_empty
      by (auto simp: nested_def split: option.splits jval.splits)
    with Cons.IH [of nested] Cons obtain n' where
      n': "set_nested nested v rest = Inr n'" "lookup_keys n' rest = Some v"
      by auto
    have "set_nested d v (k # rest) = Inr (AList.update k (JMap n') d)"
      using n'(1) not_nil Cons
      by (auto simp: nested_def split: option.splits jval.splits)
    moreover have "lookup_keys (AList.update k (JMap n') d) (k # rest) = Some v"
      using n'(2) Cons by (simp add: map_of_update_same)
    ultimately show ?thesis by blast
  qed
qed

lemma NestedSetDict_lookup:
  "keys \<noteq> [] \<Longrightarrow> \<not> nil_map_on_path (case r of None \<Rightarrow> [] | Some d \<Rightarrow> d) keys \<Longrightarrow>
     \<exists>d'. NestedSetDict r v keys = Inr (Some d') \<and> lookup_keys d' keys = Some v"
  using set_nested_lookup [of keys "case r of None \<Rightarrow> [] | Some d \<Rightarrow> d" v]
  by (auto simp: NestedSetDict_def)

lemma NestedSetDict_no_keys: "NestedSetDict r v [] = Inr r"
  by (simp add: NestedSetDict_def)


section \<open>Properties of InitPath and of the managers built on it\<close>

lemma ToUpper_POST: "ToUpper ''POST'' = ''POST''"
  by (simp add: ToUpper_def)

lemma sendRequest_sent:
  "sendRequest T ''POST'' url data w = (r, w') \<Longrightarrow>
     (r = Some RequestError \<and> w' = w) \<or> sent w' = sent w @ [SEND ''POST'' url data]"
  by (auto simp: sendRequest_def ToUpper_POST Let_def split: prod.splits response.splits if_splits)

lemma sendRequest_success_sent:
  "sendRequest T ''POST'' url data w = (None, w') \<Longrightarrow> sent w' = sent w @ [SEND ''POST'' url data]"
  using sendRequest_sent [of T url data w None w'] by simp

lemma PutConfig_sent:
  "PutConfig T data path ''POST'' w = (r, w') \<Longrightarrow>
     (r = Some RequestError \<and> w' = w)
     \<or> sent w' = sent w @ [SEND ''POST'' (GetConfigURL path) data]"
  unfolding PutConfig_def by (rule sendRequest_sent)

lemma PutConfig_success_sent:
  "PutConfig T data path ''POST'' w = (None, w')
     \<Longrightarrow> sent w' = sent w @ [SEND ''POST'' (GetConfigURL path) data]"
  unfolding PutConfig_def by (rule sendRequest_success_sent)

lemma writes_from_skip:
  "int i < skip \<Longrightarrow> writes_from keys skip i = writes_from keys skip (Suc i)"
proof -
  assume "int i < skip"
  then have "max (nat skip) i = max (nat skip) (Suc i)" by (simp add: max_def)
  then show ?thesis by (simp add: writes_from_def)
qed

lemma writes_from_step:
  "\<not> int i < skip \<Longrightarrow> i < length keys \<Longrightarrow>
     writes_from keys skip i =
       SEND ''POST'' (GetConfigURL (KeysToPath (take (Suc i) keys))) (ConfigData [])
         # writes_from keys skip (Suc i)"
proof -
  assume a: "\<not> int i < skip" "i < length keys"
  then have "max (nat skip) i = i" "max (nat skip) (Suc i) = Suc i" by (auto simp: max_def)
  with a show ?thesis by (simp add: writes_from_def upt_conv_Cons)
qed

lemma level_writes_from: "level_writes keys skip = writes_from keys skip 0"
  by (simp add: level_writes_def writes_from_def)

lemma InitPath_loop_sent:
  "InitPath_loop T skip (length cur) cur rest w = (r, w') \<Longrightarrow>
     \<exists>n \<le> length (writes_from (cur @ rest) skip (length cur)).
        sent w' = sent w @ take n (writes_from (cur @ rest) skip (length cur))
        \<and> (r = None \<longrightarrow> n = length (writes_from (cur @ rest) skip (length cur)))"
proof (induction rest arbitrary: cur w)
  case Nil
  then show ?case by (simp add: writes_from_def)
next
  case (Cons key rest)
  let ?cur = "cur @ [key]"
  have keys: "cur @ key # rest = ?cur @ rest" by simp
  have len: "length ?cur = Suc (length cur)" by simp
  have tk: "take (Suc (length cur)) (cur @ key # rest) = ?cur" by simp
  show ?case
  proof (cases "int (length cur) < skip")
    case True
    with Cons.prems have "InitPath_loop T skip (length ?cur) ?cur rest w = (r, w')"
      by (simp add: Let_def)
    from Cons.IH [OF this] show ?thesis
      unfolding keys len using writes_from_skip [OF True, of "?cur @ rest"] by simp
  next
    case False
    have lt: "length cur < length (cur @ key # rest)" by simp
    have step: "writes_from (cur @ key # rest) skip (length cur) =
        SEND ''POST'' (GetConfigURL (KeysToPath ?cur)) (ConfigData [])
          # writes_from (?cur @ rest) skip (length ?cur)"
      using writes_from_step [OF False lt] tk by simp
    obtain e w1 where put: "PutConfig T (ConfigData []) (KeysToPath ?cur) ''POST'' w = (e, w1)"
      by (cases "PutConfig T (ConfigData []) (KeysToPath ?cur) ''POST'' w")
    show ?thesis
    proof (cases e)
      case (Some err)
      with Cons.prems False put have res: "r = Some err" "w' = w1" by (simp_all add: Let_def)
      from PutConfig_sent [OF put] show ?thesis
      proof
        assume "e = Some RequestError \<and> w1 = w"
        with res show ?thesis by (intro exI [of _ 0]) simp
      next
        assume "sent w1 = sent w @ [SEND ''POST'' (GetConfigURL (KeysToPath ?cur)) (ConfigData [])]"
        with res step show ?thesis by (intro exI [of _ 1]) simp
      qed
    next
      case None
      with put PutConfig_success_sent [of T "ConfigData []" "KeysToPath ?cur" w w1]
      have s1: "sent w1 = sent w @ [SEND ''POST'' (GetConfigURL (KeysToPath ?cur)) (ConfigData [])]"
        by simp
      from None Cons.prems False put
      have "InitPath_loop T skip (length ?cur) ?cur rest w1 = (r, w')" by (simp add: Let_def)
      from Cons.IH [OF this] obtain n where
        n: "n \<le> length (writes_from (?cur @ rest) skip (length ?cur))"
           "sent w' = sent w1 @ take n (writes_from (?cur @ rest) skip (length ?cur))"
           "r = None \<longrightarrow> n = length (writes_from (?cur @ rest) skip (length ?cur))"
        by blast
      with s1 step show ?thesis by (intro exI [of _ "Suc n"]) simp
    qed
  qed
qed

lemma InitPath_sent:
  assumes "InitPath T path skip w = (r, w')"
  shows "\<exists>n \<le> length (level_writes (PathToKeys path) skip).
           sent w' = sent w @ take n (level_writes (PathToKeys path) skip)
           \<and> (r = None \<longrightarrow> n = length (level_writes (PathToKeys path) skip))"
  using InitPath_loop_sent [of T skip "[]" "PathToKeys path" w r w'] assms
  by (simp add: InitPath_def level_writes_from)

lemma InitPath_success_sent:
  assumes "InitPath T path skip w = (None, w')"
  shows "sent w' = sent w @ level_writes (PathToKeys path) skip"
  using InitPath_sent [OF assms] by auto

lemmas url_defs = GetConfigURL_def GetIDURL_def slashed_def HasPrefix_def HasSuffix_def
  BaseURL_def RoutesPath_def ServersPath_def suffix_to_prefix

lemmas client_defs = PutConfig_def PutByID_def sendRequest_def GetConfig_def GetByID_def
  http_read_def HasPath_def HasID_def DeleteByID_def decode_object_def ToUpper_POST

lemmas library_defs = url_parses_def ref_target_def is_ctl_def ishex_def

lemmas remote_defs = reference_def ref_get_def ref_send_def ref_delete_def fresh_def
  all_routes_def addressed_by_def append_target_def purge_def

lemmas path_defs = InitPath_def PathToKeys_def KeysToPath_def Trim_def

lemma InitPath_ab_fresh:
  "InitPath reference ''/a/b'' 0 fresh =
     (None, \<lparr>remote = \<lparr>entries = [(''http://localhost:2019/config/a/'', ConfigData []),
                                    (''http://localhost:2019/config/a/b/'', ConfigData [])],
                         route_list = []\<rparr>,
             sent = [SEND ''POST'' ''http://localhost:2019/config/a/'' (ConfigData []),
                     SEND ''POST'' ''http://localhost:2019/config/a/b/'' (ConfigData [])]\<rparr>)"
  by (simp add: path_defs client_defs url_defs library_defs remote_defs)

subsection \<open>InitPath on the reference transport\<close>

text \<open>
  On the reference transport the outcome of \<open>InitPath\<close>, its requests and the entries
  it writes do not depend on the state it starts from, and writing the same empty
  containers a second time changes nothing.
\<close>

lemma map_of_fold_update:
  "map_of (fold (\<lambda>k. AList.update k c) ks e) k = (if k \<in> set ks then Some c else map_of e k)"
  by (induction ks arbitrary: e) (auto simp: update_conv')

lemma fold_update_triv:
  "\<forall>k\<in>set ks. map_of e k = Some c \<Longrightarrow> fold (\<lambda>k. AList.update k c) ks e = e"
  by (induction ks) (auto simp: update_triv)

lemma fold_update_twice:
  "fold (\<lambda>k. AList.update k c) ks (fold (\<lambda>k. AList.update k c) ks e) =
     fold (\<lambda>k. AList.update k c) ks e"
  by (rule fold_update_triv) (simp add: map_of_fold_update)

lemma PutConfig_reference_empty:
  "PutConfig reference (ConfigData []) p ''POST'' w =
     (if \<not> url_parses (GetConfigURL p) then (Some RequestError, w)
      else if ref_target (GetConfigURL p) = GetConfigURL RoutesPath then
        (Some (StatusError 400),
         \<lparr>remote = remote w,
          sent = sent w @ [SEND ''POST'' (GetConfigURL p) (ConfigData [])]\<rparr>)
      else if prefix (BaseURL @ ''/config/'') (ref_target (GetConfigURL p)) then
        (None,
         \<lparr>remote = (remote w)\<lparr>entries :=
             AList.update (ref_target (GetConfigURL p)) (ConfigData []) (entries (remote w))\<rparr>,
          sent = sent w @ [SEND ''POST'' (GetConfigURL p) (ConfigData [])]\<rparr>)
      else
        (Some (StatusError 404),
         \<lparr>remote = remote w,
          sent = sent w @ [SEND ''POST'' (GetConfigURL p) (ConfigData [])]\<rparr>))"
  by (simp add: PutConfig_def sendRequest_def ToUpper_POST reference_def ref_send_def)

lemma InitPath_loop_reference:
  "\<exists>r rq ks. \<forall>w. InitPath_loop reference skip i cur rest w =
       (r, \<lparr>remote = (remote w)\<lparr>entries :=
              fold (\<lambda>k. AList.update k (ConfigData [])) ks (entries (remote w))\<rparr>,
            sent = sent w @ rq\<rparr>)"
proof (induction rest arbitrary: i cur)
  case Nil
  show ?case by (intro exI [of _ None] exI [of _ "[]"]) simp
next
  case (Cons key rest)
  let ?cur = "cur @ [key]"
  let ?url = "GetConfigURL (KeysToPath ?cur)"
  let ?rq = "SEND ''POST'' ?url (ConfigData [])"
  from Cons.IH [of "Suc i" ?cur] obtain r rq ks where
    ih: "\<And>w. InitPath_loop reference skip (Suc i) ?cur rest w =
       (r, \<lparr>remote = (remote w)\<lparr>entries :=
              fold (\<lambda>k. AList.update k (ConfigData [])) ks (entries (remote w))\<rparr>,
            sent = sent w @ rq\<rparr>)"
    by blast
  consider (skip) "int i < skip"
    | (unbuilt) "\<not> int i < skip" "\<not> url_parses ?url"
    | (routes) "\<not> int i < skip" "url_parses ?url" "ref_target ?url = GetConfigURL RoutesPath"
    | (stored) "\<not> int i < skip" "url_parses ?url" "ref_target ?url \<noteq> GetConfigURL RoutesPath"
        "prefix (BaseURL @ ''/config/'') (ref_target ?url)"
    | (other) "\<not> int i < skip" "url_parses ?url" "ref_target ?url \<noteq> GetConfigURL RoutesPath"
        "\<not> prefix (BaseURL @ ''/config/'') (ref_target ?url)"
    by blast
  then show ?case
  proof cases
    case skip
    then show ?thesis
      by (intro exI [of _ r] exI [of _ rq] exI [of _ ks]) (simp add: ih Let_def)
  next
    case unbuilt
    then show ?thesis
      by (intro exI [of _ "Some RequestError"] exI [of _ "[]"] exI [of _ "[]"])
         (simp add: PutConfig_reference_empty Let_def)
  next
    case routes
    then show ?thesis
      by (intro exI [of _ "Some (StatusError 400)"] exI [of _ "[?rq]"] exI [of _ "[]"])
         (simp add: PutConfig_reference_empty Let_def)
  next
    case stored
    then show ?thesis
      by (intro exI [of _ r] exI [of _ "?rq # rq"] exI [of _ "ref_target ?url # ks"])
         (simp add: PutConfig_reference_empty ih Let_def)
  next
    case other
    then show ?thesis
      by (intro exI [of _ "Some (StatusError 404)"] exI [of _ "[?rq]"] exI [of _ "[]"])
         (simp add: PutConfig_reference_empty Let_def)
  qed
qed

lemma InitPath_reference_again:
  "fst (InitPath reference path skip (snd (InitPath reference path skip v))) =
     fst (InitPath reference path skip v)
   \<and> drop (length (sent (snd (InitPath reference path skip v))))
        (sent (snd (InitPath reference path skip (snd (InitPath reference path skip v))))) =
      drop (length (sent v)) (sent (snd (InitPath reference path skip v)))
   \<and> remote (snd (InitPath reference path skip (snd (InitPath reference path skip v)))) =
      remote (snd (InitPath reference path skip v))"
proof -
  from InitPath_loop_reference [of skip 0 "[]" "PathToKeys path"] obtain r rq ks where
    run: "\<And>w. InitPath reference path skip w =
       (r, \<lparr>remote = (remote w)\<lparr>entries :=
              fold (\<lambda>k. AList.update k (ConfigData [])) ks (entries (remote w))\<rparr>,
            sent = sent w @ rq\<rparr>)"
    unfolding InitPath_def by blast
  show ?thesis by (simp add: run fold_update_twice)
qed

lemma InitPath_ab_again:
  "InitPath reference ''/a/b'' 0 (snd (InitPath reference ''/a/b'' 0 fresh)) =
     (None, \<lparr>remote = \<lparr>entries = [(''http://localhost:2019/config/a/'', ConfigData []),
                                    (''http://localhost:2019/config/a/b/'', ConfigData [])],
                         route_list = []\<rparr>,
             sent = [SEND ''POST'' ''http://localhost:2019/config/a/'' (ConfigData []),
                     SEND ''POST'' ''http://localhost:2019/config/a/b/'' (ConfigData []),
                     SEND ''POST'' ''http://localhost:2019/config/a/'' (ConfigData []),
                     SEND ''POST'' ''http://localhost:2019/config/a/b/'' (ConfigData [])]\<rparr>)"
  unfolding InitPath_ab_fresh
  by (simp add: path_defs client_defs url_defs library_defs remote_defs)

text \<open>
  Claim C8. \<open>InitPath\<close> issues nothing for a level below \<open>skip\<close>: against any
  transport, the requests of a call are an initial part of \<open>level_writes\<close>, that is
  of the writes of an empty container at the path of the first \<open>i + 1\<close> keys for
  \<open>i\<close> from \<open>skip\<close> up to the last level, shallowest first; a call that returns
  no error has issued all of them.
\<close>

theorem InitPath_levels_in_order:
  assumes "InitPath T path skip w = (r, w')"
  shows "(\<exists>n \<le> length (level_writes (PathToKeys path) skip).
            sent w' = sent w @ take n (level_writes (PathToKeys path) skip))
         \<and> (r = None \<longrightarrow> sent w' = sent w @ level_writes (PathToKeys path) skip)"
  using InitPath_sent [OF assms] by auto

theorem InitPath_levels_in_order_witness:
  "InitPath reference ''/a/b/c'' 1 fresh =
     (None, \<lparr>remote = \<lparr>entries = [(''http://localhost:2019/config/a/b/'', ConfigData []),
                                    (''http://localhost:2019/config/a/b/c/'', ConfigData [])],
                         route_list = []\<rparr>,
             sent = [SEND ''POST'' ''http://localhost:2019/config/a/b/'' (ConfigData []),
                     SEND ''POST'' ''http://localhost:2019/config/a/b/c/'' (ConfigData [])]\<rparr>)
   \<and> level_writes (PathToKeys ''/a/b/c'') 1 =
       [SEND ''POST'' ''http://localhost:2019/config/a/b/'' (ConfigData []),
        SEND ''POST'' ''http://localhost:2019/config/a/b/c/'' (ConfigData [])]"
proof -
  have run: "InitPath reference ''/a/b/c'' 1 fresh =
     (None, \<lparr>remote = \<lparr>entries = [(''http://localhost:2019/config/a/b/'', ConfigData []),
                                    (''http://localhost:2019/config/a/b/c/'', ConfigData [])],
                         route_list = []\<rparr>,
             sent = [SEND ''POST'' ''http://localhost:2019/config/a/b/'' (ConfigData []),
                     SEND ''POST'' ''http://localhost:2019/config/a/b/c/'' (ConfigData [])]\<rparr>)"
    by (simp add: path_defs client_defs url_defs library_defs remote_defs)
  from InitPath_levels_in_order [OF run] show ?thesis
    unfolding run by (simp add: fresh_def)
qed


text \<open>
  Claim C1 does not hold of \<open>InitPath\<close>: it has no existence check. After a first
  call for \<open>/a/b\<close> both levels exist in the store, and a second call with the same
  arguments writes both levels again.
\<close>

theorem InitPath_second_call_counterexample:
  "fst (HasPath reference ''/a'' (snd (InitPath reference ''/a/b'' 0 fresh)))
   \<and> fst (HasPath reference ''/a/b'' (snd (InitPath reference ''/a/b'' 0 fresh)))
   \<and> sent (snd (InitPath reference ''/a/b'' 0 (snd (InitPath reference ''/a/b'' 0 fresh)))) =
       sent (snd (InitPath reference ''/a/b'' 0 fresh))
         @ [SEND ''POST'' ''http://localhost:2019/config/a/'' (ConfigData []),
            SEND ''POST'' ''http://localhost:2019/config/a/b/'' (ConfigData [])]
   \<and> filter is_write
         (drop (length (sent (snd (InitPath reference ''/a/b'' 0 fresh))))
            (sent (snd (InitPath reference ''/a/b'' 0 (snd (InitPath reference ''/a/b'' 0 fresh))))))
       \<noteq> []"
  unfolding InitPath_ab_again unfolding InitPath_ab_fresh
  by (simp add: client_defs url_defs library_defs remote_defs)


text \<open>
  Claim C1, amended. \<open>InitPath\<close> makes no existence check: against any transport, a
  call that returns no error has written an empty container at every level from
  \<open>skip\<close> on, whether or not the level existed. Consequently a second call with the
  same arguments does not stay silent: on the reference transport it ends as the first
  one did and issues the same requests again. It leaves the remote state identical.
\<close>

theorem InitPath_rewrites_levels:
  "(InitPath T path skip w = (None, w') \<longrightarrow>
      sent w' = sent w @ level_writes (PathToKeys path) skip)
   \<and> list_all is_write (level_writes (PathToKeys path) skip)
   \<and> fst (InitPath reference path skip (snd (InitPath reference path skip v))) =
        fst (InitPath reference path skip v)
   \<and> drop (length (sent (snd (InitPath reference path skip v))))
        (sent (snd (InitPath reference path skip (snd (InitPath reference path skip v))))) =
      drop (length (sent v)) (sent (snd (InitPath reference path skip v)))
   \<and> remote (snd (InitPath reference path skip (snd (InitPath reference path skip v)))) =
      remote (snd (InitPath reference path skip v))"
proof (intro conjI impI)
  show "sent w' = sent w @ level_writes (PathToKeys path) skip"
    if "InitPath T path skip w = (None, w')"
    using that by (rule InitPath_success_sent)
  show "list_all is_write (level_writes (PathToKeys path) skip)"
    by (simp add: level_writes_def list_all_iff)
qed (simp_all only: InitPath_reference_again)

theorem InitPath_rewrites_levels_witness:
  "InitPath reference ''/a/b'' 0 fresh =
     (None, \<lparr>remote = \<lparr>entries = [(''http://localhost:2019/config/a/'', ConfigData []),
                                    (''http://localhost:2019/config/a/b/'', ConfigData [])],
                         route_list = []\<rparr>,
             sent = [SEND ''POST'' ''http://localhost:2019/config/a/'' (ConfigData []),
                     SEND ''POST'' ''http://localhost:2019/config/a/b/'' (ConfigData [])]\<rparr>)
   \<and> level_writes (PathToKeys ''/a/b'') 0 =
       [SEND ''POST'' ''http://localhost:2019/config/a/'' (ConfigData []),
        SEND ''POST'' ''http://localhost:2019/config/a/b/'' (ConfigData [])]
   \<and> fst (InitPath reference ''/a/b'' 0 (snd (InitPath reference ''/a/b'' 0 fresh))) = None
   \<and> drop 2 (sent (snd (InitPath reference ''/a/b'' 0 (snd (InitPath reference ''/a/b'' 0 fresh))))) =
       [SEND ''POST'' ''http://localhost:2019/config/a/'' (ConfigData []),
        SEND ''POST'' ''http://localhost:2019/config/a/b/'' (ConfigData [])]
   \<and> remote (snd (InitPath reference ''/a/b'' 0 (snd (InitPath reference ''/a/b'' 0 fresh)))) =
       \<lparr>entries = [(''http://localhost:2019/config/a/'', ConfigData []),
                   (''http://localhost:2019/config/a/b/'', ConfigData [])],
        route_list = []\<rparr>"
  using InitPath_rewrites_levels [of reference "''/a/b''" 0 fresh
      "snd (InitPath reference ''/a/b'' 0 fresh)" fresh]
  unfolding InitPath_ab_again unfolding InitPath_ab_fresh by (simp add: fresh_def)

lemma pki_keys:
  "PathToKeys ''/apps/pki/certificate_authorities/local'' =
     [''apps'', ''pki'', ''certificate_authorities'', ''local'']"
  by (simp add: PathToKeys_def Trim_def)

lemma pki_level_writes:
  "level_writes (PathToKeys ''/apps/pki/certificate_authorities/local'') 1 =
     [SEND ''POST'' ''http://localhost:2019/config/apps/pki/'' (ConfigData []),
      SEND ''POST'' ''http://localhost:2019/config/apps/pki/certificate_authorities/'' (ConfigData []),
      SEND ''POST'' ''http://localhost:2019/config/apps/pki/certificate_authorities/local/''
        (ConfigData [])]"
  unfolding pki_keys
  by (simp add: level_writes_def upt_conv_Cons KeysToPath_def url_defs)


lemma pki_run:
  "InitPath reference ''/apps/pki/certificate_authorities/local'' 1 v =
     (None,
      \<lparr>remote = (remote v)\<lparr>entries :=
          AList.update ''http://localhost:2019/config/apps/pki/certificate_authorities/local/''
            (ConfigData [])
            (AList.update ''http://localhost:2019/config/apps/pki/certificate_authorities/''
               (ConfigData [])
               (AList.update ''http://localhost:2019/config/apps/pki/'' (ConfigData [])
                  (entries (remote v))))\<rparr>,
       sent = sent v @
         [SEND ''POST'' ''http://localhost:2019/config/apps/pki/'' (ConfigData []),
          SEND ''POST'' ''http://localhost:2019/config/apps/pki/certificate_authorities/''
            (ConfigData []),
          SEND ''POST'' ''http://localhost:2019/config/apps/pki/certificate_authorities/local/''
            (ConfigData [])]\<rparr>)"
  unfolding InitPath_def pki_keys
  by (simp add: KeysToPath_def client_defs url_defs library_defs remote_defs)

lemma pki_put:
  "PutConfig reference (PKIData c) ''/apps/pki/certificate_authorities/local'' ''POST'' w =
     (None,
      \<lparr>remote = (remote w)\<lparr>entries :=
          AList.update ''http://localhost:2019/config/apps/pki/certificate_authorities/local/''
            (PKIData c) (entries (remote w))\<rparr>,
       sent = sent w @
         [SEND ''POST'' ''http://localhost:2019/config/apps/pki/certificate_authorities/local/''
            (PKIData c)]\<rparr>)"
  by (simp add: client_defs url_defs library_defs remote_defs)

text \<open>
  Claim C9. With an absent flag \<open>SetupPKITrust\<close> returns no error and leaves the
  world as it is: nothing is sent and the remote state is unchanged. With a flag, a
  call that returns no error has sent the writes of the three levels below \<open>/apps\<close>
  and then the write of the flag, against any transport; on the reference transport
  the call returns no error from every state, the store then holds an empty container
  at \<open>/apps/pki\<close> and at \<open>/apps/pki/certificate_authorities\<close> and the flag at
  \<open>/apps/pki/certificate_authorities/local\<close>, and the level \<open>/apps\<close> is as it was.
\<close>

theorem SetupPKITrust_absent_flag:
  "SetupPKITrust T None w = (None, w)
   \<and> (fst (SetupPKITrust T (Some flag) w) = None \<longrightarrow>
        sent (snd (SetupPKITrust T (Some flag) w)) =
          sent w @
          [SEND ''POST'' ''http://localhost:2019/config/apps/pki/'' (ConfigData []),
           SEND ''POST'' ''http://localhost:2019/config/apps/pki/certificate_authorities/''
             (ConfigData []),
           SEND ''POST'' ''http://localhost:2019/config/apps/pki/certificate_authorities/local/''
             (ConfigData []),
           SEND ''POST'' ''http://localhost:2019/config/apps/pki/certificate_authorities/local/''
             (PKIData (PKIConfig flag))])
   \<and> SetupPKITrust reference (Some flag) v =
       (None,
        \<lparr>remote = (remote v)\<lparr>entries :=
            AList.update ''http://localhost:2019/config/apps/pki/certificate_authorities/local/''
              (PKIData (PKIConfig flag))
              (AList.update ''http://localhost:2019/config/apps/pki/certificate_authorities/''
                 (ConfigData [])
                 (AList.update ''http://localhost:2019/config/apps/pki/'' (ConfigData [])
                    (entries (remote v))))\<rparr>,
         sent = sent v @
           [SEND ''POST'' ''http://localhost:2019/config/apps/pki/'' (ConfigData []),
            SEND ''POST'' ''http://localhost:2019/config/apps/pki/certificate_authorities/''
              (ConfigData []),
            SEND ''POST'' ''http://localhost:2019/config/apps/pki/certificate_authorities/local/''
              (ConfigData []),
            SEND ''POST'' ''http://localhost:2019/config/apps/pki/certificate_authorities/local/''
              (PKIData (PKIConfig flag))]\<rparr>)
   \<and> map_of (entries (remote (snd (SetupPKITrust reference (Some flag) v))))
         ''http://localhost:2019/config/apps/pki/certificate_authorities/local/'' =
       Some (PKIData (PKIConfig flag))
   \<and> map_of (entries (remote (snd (SetupPKITrust reference (Some flag) v))))
         ''http://localhost:2019/config/apps/pki/certificate_authorities/'' =
       Some (ConfigData [])
   \<and> map_of (entries (remote (snd (SetupPKITrust reference (Some flag) v))))
         ''http://localhost:2019/config/apps/pki/'' =
       Some (ConfigData [])
   \<and> map_of (entries (remote (snd (SetupPKITrust reference (Some flag) v))))
         ''http://localhost:2019/config/apps/'' =
       map_of (entries (remote v)) ''http://localhost:2019/config/apps/''"
proof -
  let ?p = "''/apps/pki/certificate_authorities/local''"
  have absent: "SetupPKITrust T None w = (None, w)" by (simp add: SetupPKITrust_def)
  have log: "sent (snd (SetupPKITrust T (Some flag) w)) =
          sent w @
          [SEND ''POST'' ''http://localhost:2019/config/apps/pki/'' (ConfigData []),
           SEND ''POST'' ''http://localhost:2019/config/apps/pki/certificate_authorities/''
             (ConfigData []),
           SEND ''POST'' ''http://localhost:2019/config/apps/pki/certificate_authorities/local/''
             (ConfigData []),
           SEND ''POST'' ''http://localhost:2019/config/apps/pki/certificate_authorities/local/''
             (PKIData (PKIConfig flag))]"
    if ok: "fst (SetupPKITrust T (Some flag) w) = None"
  proof -
    obtain r w1 where init: "InitPath T ?p 1 w = (r, w1)" by (cases "InitPath T ?p 1 w")
    obtain e w2 where put: "PutConfig T (PKIData (PKIConfig flag)) ?p ''POST'' w1 = (e, w2)"
      by (cases "PutConfig T (PKIData (PKIConfig flag)) ?p ''POST'' w1")
    from ok init have r: "r = None" by (cases r) (simp_all add: SetupPKITrust_def)
    with ok init put have e: "e = None" by (simp add: SetupPKITrust_def)
    from init r have "sent w1 = sent w @ level_writes (PathToKeys ?p) 1"
      using InitPath_success_sent by blast
    moreover from put e have
      "sent w2 = sent w1 @ [SEND ''POST'' (GetConfigURL ?p) (PKIData (PKIConfig flag))]"
      using PutConfig_success_sent by blast
    ultimately show ?thesis
      using init put r unfolding pki_level_writes by (simp add: SetupPKITrust_def url_defs)
  qed
  have store: "SetupPKITrust reference (Some flag) v =
       (None,
        \<lparr>remote = (remote v)\<lparr>entries :=
            AList.update ''http://localhost:2019/config/apps/pki/certificate_authorities/local/''
              (PKIData (PKIConfig flag))
              (AList.update ''http://localhost:2019/config/apps/pki/certificate_authorities/''
                 (ConfigData [])
                 (AList.update ''http://localhost:2019/config/apps/pki/'' (ConfigData [])
                    (entries (remote v))))\<rparr>,
         sent = sent v @
           [SEND ''POST'' ''http://localhost:2019/config/apps/pki/'' (ConfigData []),
            SEND ''POST'' ''http://localhost:2019/config/apps/pki/certificate_authorities/''
              (ConfigData []),
            SEND ''POST'' ''http://localhost:2019/config/apps/pki/certificate_authorities/local/''
              (ConfigData []),
            SEND ''POST'' ''http://localhost:2019/config/apps/pki/certificate_authorities/local/''
              (PKIData (PKIConfig flag))]\<rparr>)"
    by (simp add: SetupPKITrust_def pki_run pki_put)
  show ?thesis
    using absent log unfolding store by (simp add: update_conv')
qed

theorem SetupPKITrust_absent_flag_witness:
  "SetupPKITrust reference None fresh = (None, fresh)
   \<and> SetupPKITrust reference (Some True) fresh =
       (None,
        \<lparr>remote =
           \<lparr>entries =
              [(''http://localhost:2019/config/apps/pki/'', ConfigData []),
               (''http://localhost:2019/config/apps/pki/certificate_authorities/'', ConfigData []),
               (''http://localhost:2019/config/apps/pki/certificate_authorities/local/'',
                PKIData (PKIConfig True))],
            route_list = []\<rparr>,
         sent =
           [SEND ''POST'' ''http://localhost:2019/config/apps/pki/'' (ConfigData []),
            SEND ''POST'' ''http://localhost:2019/config/apps/pki/certificate_authorities/''
              (ConfigData []),
            SEND ''POST'' ''http://localhost:2019/config/apps/pki/certificate_authorities/local/''
              (ConfigData []),
            SEND ''POST'' ''http://localhost:2019/config/apps/pki/certificate_authorities/local/''
              (PKIData (PKIConfig True))]\<rparr>)
   \<and> fst (SetupPKITrust reference (Some True) fresh) = None"
  using SetupPKITrust_absent_flag [of reference fresh True fresh]
  by (simp add: fresh_def)

text \<open>
  Claim C10. When the existence check of \<open>/apps/http/servers\<close> succeeds,
  \<open>InitRoutes\<close> returns no error, for every server name and every \<open>skip\<close>; it
  has issued the one GET of the check and no write, and the remote state is unchanged.
\<close>

theorem InitRoutes_servers_exist:
  assumes "fst (HasPath T ServersPath w)"
  shows "InitRoutes T serverName skip w =
           (None, w\<lparr>sent := sent w @ [GET (GetConfigURL ServersPath)]\<rparr>)"
  using assms
  by (auto simp: InitRoutes_def HasPath_def GetConfig_def http_read_def Let_def
      split: prod.splits response.splits option.splits if_splits bool.splits)


theorem InitRoutes_servers_exist_witness:
  "fst (HasPath reference ServersPath
          \<lparr>remote = \<lparr>entries = [(''http://localhost:2019/config/apps/http/servers/'', ConfigData [])],
                      route_list = []\<rparr>,
           sent = []\<rparr>)
   \<and> InitRoutes reference ''web'' 1
         \<lparr>remote = \<lparr>entries = [(''http://localhost:2019/config/apps/http/servers/'', ConfigData [])],
                     route_list = []\<rparr>,
          sent = []\<rparr> =
       (None,
        \<lparr>remote = \<lparr>entries = [(''http://localhost:2019/config/apps/http/servers/'', ConfigData [])],
                    route_list = []\<rparr>,
         sent = [GET ''http://localhost:2019/config/apps/http/servers/'']\<rparr>)"
proof -
  let ?w = "\<lparr>remote = \<lparr>entries = [(''http://localhost:2019/config/apps/http/servers/'', ConfigData [])],
                      route_list = []\<rparr>,
           sent = []\<rparr>"
  have ex: "fst (HasPath reference ServersPath ?w)"
    by (simp add: client_defs url_defs library_defs remote_defs)
  from InitRoutes_servers_exist [OF ex, of "''web''" 1] ex show ?thesis
    by (simp add: url_defs)
qed

section \<open>Routes against the reference transport\<close>

lemma GetIDURL_not_routes: "GetIDURL x \<noteq> GetConfigURL RoutesPath"
  by (simp add: GetIDURL_def GetConfigURL_def BaseURL_def)

lemma GetIDURL_not_config: "\<not> prefix (BaseURL @ ''/config/'') (GetIDURL x)"
  by (simp add: GetIDURL_def BaseURL_def)

lemma routes_url_reaches: "reaches_store (GetConfigURL RoutesPath)"
  by (simp add: reaches_store_def url_defs library_defs)


lemma HasID_reference_unbuilt:
  "\<not> url_parses (GetIDURL x) \<Longrightarrow> HasID reference x w = (False, w)"
  by (simp add: HasID_def GetByID_def http_read_def reference_def)


lemma AddRoute_reference:
  "AddRoute reference r w =
     (None, \<lparr>remote = (remote w)\<lparr>route_list := route_list (remote w) @ [r]\<rparr>,
             sent = sent w @ [SEND ''POST'' (GetConfigURL RoutesPath) (RouteData r)]\<rparr>)"
  using routes_url_reaches
  by (simp add: AddRoute_def PutConfig_def sendRequest_def ToUpper_POST reference_def
      ref_send_def reaches_store_def)

lemma ID_purge_route: "ID (purge_route url r) = ID r"
  by (cases r) simp

lemma addressed_by_purge_route: "addressed_by url (purge_route url r) = addressed_by url r"
  by (simp add: addressed_by_def ID_purge_route)









subsection \<open>Wildcard routes and sub-routes\<close>

lemma graft_unaddressed:
  "(\<forall>x\<in>set (route_tree r). \<not> append_target url (ID x)) \<longrightarrow> graft_route url new r = r"
  "(\<forall>x\<in>set (handler_tree h). \<not> append_target url (ID x)) \<longrightarrow> graft_handler url new h = h"
proof (induction r and h)
  case (Route i m hs t)
  then show ?case by (auto intro: map_idI)
next
  case (Handler k u rs)
  then show ?case by (auto intro: map_idI)
qed

lemma graft_list_unaddressed:
  assumes "\<not> list_ex (\<lambda>r. append_target url (ID r)) (concat (map route_tree rs))"
  shows "map (graft_route url new) rs = rs"
  using assms graft_unaddressed(1) [of _ url new]
  by (intro map_idI) (auto simp: list_ex_iff)


text \<open>
  Claim C6. Against the reference store, in any state where no route is yet addressed by
  the append URL of \<open>wildcard-example.com\<close>: \<open>AddWildcardRoute\<close> for
  \<open>example.com\<close> followed by \<open>AddSubReverseProxy\<close> for the subdomain \<open>api\<close>,
  the ports \<open>8080\<close> and \<open>8081\<close> and the host \<open>127.0.0.1\<close> both succeed, and
  they add to the route list one terminal route with identifier
  \<open>wildcard-example.com\<close> and host match \<open>*.example.com\<close>, whose sub-route
  list holds exactly one route: identifier \<open>api.example.com\<close>, host match
  \<open>api.example.com\<close>, upstreams \<open>127.0.0.1:8080\<close> and \<open>127.0.0.1:8081\<close> in
  that order.
\<close>

theorem wildcard_composition:
  assumes "\<not> list_ex (\<lambda>r. append_target (GetIDURL ''wildcard-example.com/handle/0/routes/...'') (ID r))
               (all_routes (remote w))"
  shows "fst (AddWildcardRoute reference ''example.com'' w) = None
    \<and> fst (AddSubReverseProxy reference ''example.com'' ''api'' [''8080'', ''8081''] ''127.0.0.1''
             (snd (AddWildcardRoute reference ''example.com'' w))) = None
    \<and> route_list (remote (snd
          (AddSubReverseProxy reference ''example.com'' ''api'' [''8080'', ''8081''] ''127.0.0.1''
             (snd (AddWildcardRoute reference ''example.com'' w))))) =
        route_list (remote w) @
        [Route ''wildcard-example.com''
           [RouteMatch [''*.example.com''] []]
           [Handler ''subroute'' []
              [Route ''api.example.com''
                 [RouteMatch [''api.example.com''] []]
                 [Handler ''reverse_proxy''
                    [Upstream ''127.0.0.1:8080'', Upstream ''127.0.0.1:8081''] []]
                 False]]
           True]"
proof -
  let ?url = "GetIDURL ''wildcard-example.com/handle/0/routes/...''"
  let ?wild = "Route ''wildcard-example.com'' [RouteMatch [''*.example.com''] []]
                 [Handler ''subroute'' [] []] True"
  let ?sub = "Route ''api.example.com'' [RouteMatch [''api.example.com''] []]
                 [Handler ''reverse_proxy''
                    [Upstream ''127.0.0.1:8080'', Upstream ''127.0.0.1:8081''] []] False"
  let ?w1 = "snd (AddWildcardRoute reference ''example.com'' w)"
  have first: "AddWildcardRoute reference ''example.com'' w =
      (None, \<lparr>remote = (remote w)\<lparr>route_list := route_list (remote w) @ [?wild]\<rparr>,
              sent = sent w @ [SEND ''POST'' (GetConfigURL RoutesPath) (RouteData ?wild)]\<rparr>)"
    by (simp add: AddWildcardRoute_def AddRoute_reference)
  have target: "append_target ?url ''wildcard-example.com''"
    by (simp add: append_target_def)
  have reach: "url_parses ?url" "ref_target ?url = ?url"
    by (simp_all add: url_defs library_defs)
  have found: "list_ex (\<lambda>r. append_target ?url (ID r) \<and> Handle r \<noteq> [])
                 (all_routes (remote ?w1))"
    unfolding first using target by (simp add: all_routes_def)
  have old: "map (graft_route ?url [?sub]) (route_list (remote w)) = route_list (remote w)"
    using assms by (intro graft_list_unaddressed) (simp add: all_routes_def)
  have grafted: "map (graft_route ?url [?sub]) (route_list (remote ?w1)) =
      route_list (remote w) @
        [Route ''wildcard-example.com'' [RouteMatch [''*.example.com''] []]
           [Handler ''subroute'' [] [?sub]] True]"
    unfolding first using old target by simp
  have second: "AddSubReverseProxy reference ''example.com'' ''api'' [''8080'', ''8081'']
        ''127.0.0.1'' ?w1 =
      (None, \<lparr>remote = (remote ?w1)\<lparr>route_list :=
                  map (graft_route ?url [?sub]) (route_list (remote ?w1))\<rparr>,
              sent = sent ?w1 @ [SEND ''POST'' ?url (RouteListData [?sub])]\<rparr>)"
    using found reach
    by (simp add: AddSubReverseProxy_def PutByID_def sendRequest_def ToUpper_POST
        reference_def ref_send_def GetIDURL_not_routes GetIDURL_not_config Let_def)
  show ?thesis
    unfolding second using grafted by (simp add: first)
qed

theorem wildcard_composition_witness:
  "\<not> list_ex (\<lambda>r. append_target (GetIDURL ''wildcard-example.com/handle/0/routes/...'') (ID r))
         (all_routes (remote fresh))
   \<and> route_list (remote (snd
          (AddSubReverseProxy reference ''example.com'' ''api'' [''8080'', ''8081''] ''127.0.0.1''
             (snd (AddWildcardRoute reference ''example.com'' fresh))))) =
        [Route ''wildcard-example.com''
           [RouteMatch [''*.example.com''] []]
           [Handler ''subroute'' []
              [Route ''api.example.com''
                 [RouteMatch [''api.example.com''] []]
                 [Handler ''reverse_proxy''
                    [Upstream ''127.0.0.1:8080'', Upstream ''127.0.0.1:8081''] []]
                 False]]
           True]"
proof -
  have none: "\<not> list_ex (\<lambda>r. append_target (GetIDURL ''wildcard-example.com/handle/0/routes/...'') (ID r))
         (all_routes (remote fresh))"
    by (simp add: fresh_def all_routes_def)
  from wildcard_composition [OF none] none show ?thesis
    by (simp add: fresh_def)
qed

text \<open>
  Against every transport the two adders issue at most one request, the POST, and
  nothing before it.
\<close>

lemma AddWildcardRoute_sent:
  "sent (snd (AddWildcardRoute T domain w)) = sent w
   \<or> sent (snd (AddWildcardRoute T domain w)) =
       sent w @ [SEND ''POST'' (GetConfigURL RoutesPath)
                   (RouteData (Route (''wildcard-'' @ domain) [RouteMatch [''*.'' @ domain] []]
                      [Handler ''subroute'' [] []] True))]"
proof -
  obtain r w' where run: "AddWildcardRoute T domain w = (r, w')"
    by (cases "AddWildcardRoute T domain w")
  then show ?thesis
    using PutConfig_sent [of T _ RoutesPath w r w']
    by (auto simp: AddWildcardRoute_def AddRoute_def)
qed

lemma AddSubReverseProxy_sent:
  "sent (snd (AddSubReverseProxy T domain subdomain ports host w)) = sent w
   \<or> (\<exists>body. sent (snd (AddSubReverseProxy T domain subdomain ports host w)) =
        sent w @ [SEND ''POST'' (GetIDURL (''wildcard-'' @ domain @ ''/handle/0/routes/...'')) body])"
proof -
  obtain r w' where run: "AddSubReverseProxy T domain subdomain ports host w = (r, w')"
    by (cases "AddSubReverseProxy T domain subdomain ports host w")
  then show ?thesis
    using sendRequest_sent [of T _ _ w r w']
    by (auto simp: AddSubReverseProxy_def PutByID_def Let_def)
qed

text \<open>
  Claim C2 at two inputs. \<open>AddWildcardRoute\<close> and \<open>AddSubReverseProxy\<close> send
  their POST without asking for the identifier and without a delete, unlike
  \<open>AddReverseProxy\<close>: a second \<open>AddWildcardRoute\<close> for the same domain leaves two
  routes named \<open>wildcard-example.com\<close>, and a second \<open>AddSubReverseProxy\<close> for the
  same subdomain leaves two sub-routes named \<open>api.example.com\<close>.
\<close>

theorem duplicate_identifiers:
  "map ID (route_list (remote (snd (AddWildcardRoute reference ''example.com''
             (snd (AddWildcardRoute reference ''example.com'' fresh)))))) =
     [''wildcard-example.com'', ''wildcard-example.com'']
   \<and> sent (snd (AddWildcardRoute reference ''example.com''
             (snd (AddWildcardRoute reference ''example.com'' fresh)))) =
     [SEND ''POST'' ''http://localhost:2019/config/apps/http/servers/srv0/routes/''
        (RouteData (Route ''wildcard-example.com'' [RouteMatch [''*.example.com''] []]
           [Handler ''subroute'' [] []] True)),
      SEND ''POST'' ''http://localhost:2019/config/apps/http/servers/srv0/routes/''
        (RouteData (Route ''wildcard-example.com'' [RouteMatch [''*.example.com''] []]
           [Handler ''subroute'' [] []] True))]
   \<and> map (\<lambda>r. map (\<lambda>h. map ID (Routes h)) (Handle r))
       (route_list (remote (snd
          (AddSubReverseProxy reference ''example.com'' ''api'' [''9000''] []
             (snd (AddSubReverseProxy reference ''example.com'' ''api'' [''8080''] []
                (snd (AddWildcardRoute reference ''example.com'' fresh))))))))
       = [[[''api.example.com'', ''api.example.com'']]]"
  by (simp add: AddWildcardRoute_def AddSubReverseProxy_def AddRoute_def
      client_defs url_defs library_defs remote_defs Let_def)

subsection \<open>Port arguments\<close>

text \<open>
  Claim C3 at the input \<open>["8080", true]\<close>: the element of an unsupported type is
  dropped and the call goes on with the port \<open>8080\<close> alone and returns no error,
  where a single value of that type is refused with the unsupported-port-type error.
\<close>

theorem port_list_drops_unsupported_element:
  "port_list (AnyList [PortString ''8080'', PortOther]) = Inr [''8080'']
   \<and> fst (AddSubReverseProxyWithPorts reference ''example.com'' ''api''
            (AnyList [PortString ''8080'', PortOther]) ''127.0.0.1''
            (snd (AddWildcardRoute reference ''example.com'' fresh))) = None
   \<and> port_list (Single PortOther) = Inl UnsupportedPortType"
  by (simp add: port_list_def AddSubReverseProxyWithPorts_def AddWildcardRoute_def
      AddSubReverseProxy_def AddRoute_def client_defs url_defs library_defs remote_defs Let_def)

text \<open>The inputs that the type switch supports.\<close>

lemma digits_small: "n < 10 \<Longrightarrow> digits n = [''0123456789'' ! n]"
  by (simp add: digits.simps)

lemma digits_large:
  "\<not> n < 10 \<Longrightarrow> digits n = digits (n div 10) @ [''0123456789'' ! (n mod 10)]"
  by (subst digits.simps) simp

lemma port_list_supported:
  "port_list (Single (PortInt 9000)) = Inr [''9000'']"
  "port_list (Single (PortString ''9000'')) = Inr [''9000'']"
  "port_list (AnyList [PortString ''8080'', PortInt 8081]) = Inr [''8080'', ''8081'']"
  "port_list (AnyList [PortFloat 8080.0]) = Inr [''8080'']"
  "port_list (Single (PortFloat 8080.0)) = Inl UnsupportedPortType"
  by (simp_all add: port_list_def Itoa_def float_to_int_def digits_small digits_large)

end
